theory Spec2Isabelle
  imports Main
begin

section \<open>The users API of Trill: data\<close>

text \<open>
  The program is \<^verbatim>\<open>backend/src/usersAPI/main.go\<close>: one Lambda handler that reads or
  updates the caller's row of the table of users. The database (gorm over MySQL), the
  identity provider (Cognito) and the packages of the Go distribution are not code of the
  repository; they appear here as an explicit world that the functions thread through, and
  as a record of library functions.
\<close>

text \<open>A decoded JSON value, as \<open>encoding/json\<close> hands it to Go code. A number keeps its
  literal.\<close>

datatype json =
    JNull
  | JBool bool
  | JNumber string
  | JString string
  | JArray "json list"
  | JObject "(string \<times> json) list"

text \<open>\<open>time.Time\<close> is an abstract instant; \<open>0\<close> stands for the zero value of the type.\<close>

type_synonym time = nat

text \<open>\<open>type User struct\<close>: the row of the table, \<open>Username\<close> its primary key.\<close>

record User =
  CreatedAt :: time
  UpdatedAt :: time
  DeletedAt :: time
  Username :: string
  Bio :: string
  ProfilePicture :: string

text \<open>An attribute of the identity provider's answer. Both members are pointers in the
  SDK; \<open>None\<close> is the nil pointer.\<close>

record AttributeType =
  Name :: "string option"
  Value :: "string option"

text \<open>The parts of \<open>events.APIGatewayV2HTTPRequest\<close> that the handler reads. The
  authorizer description is a pointer; \<open>None\<close> is nil. The maps are association lists.\<close>

record HTTPDescription =
  Method :: string

record AuthorizerDescription =
  Lambda :: "(string \<times> json) list"

record RequestContext =
  HTTP :: HTTPDescription
  Authorizer :: "AuthorizerDescription option"

record Request =
  RequestContext :: RequestContext
  Headers :: "(string \<times> string) list"
  Body :: string

text \<open>The parts of \<open>events.APIGatewayV2HTTPResponse\<close> that the handler sets; a field left
  out of a Go composite literal is empty.\<close>

record Response =
  StatusCode :: int
  Body :: string
  Headers :: "(string \<times> string) list"

text \<open>What a Go function of type \<open>(Response, error)\<close> does: it returns both values, the
  error \<open>None\<close> when nil, or it panics.\<close>

datatype outcome =
    Return Response "string option"
  | Panic string

section \<open>The collaborators\<close>

text \<open>Library functions of the Go distribution, taken as parameters:
  \<^item> \<open>json_parse\<close>: the syntax check and scan of \<open>encoding/json\<close>, \<open>None\<close> for a text
    that is not JSON;
  \<^item> \<open>time_parse\<close>: the RFC 3339 parser behind \<open>Time.UnmarshalJSON\<close>;
  \<^item> \<open>json_Marshal\<close>: \<open>json.Marshal\<close> on a map from strings to values, the error on the
    left;
  \<^item> \<open>json_HTMLEscape\<close>: the text \<open>json.HTMLEscape\<close> writes to the buffer.\<close>

record lib =
  json_parse :: "string \<Rightarrow> json option"
  time_parse :: "string \<Rightarrow> time option"
  json_Marshal :: "(string \<times> json) list \<Rightarrow> string + string"
  json_HTMLEscape :: "string \<Rightarrow> string"

text \<open>The calls that leave the process.\<close>

datatype call =
    OpenDB
  | LoadConfig
  | GetUser string
  | SelectFirst string
  | SaveRow User

text \<open>The world outside the handler: what the database and the identity provider answer,
  the rows of the table, and the log of the calls made so far (the newest last).
  \<^item> \<open>open_error\<close>: the error of \<open>gorm.Open\<close>, if it fails;
  \<open>query_error\<close>, \<open>save_error\<close>: a failure of the query or of the write other than
  "record not found";
  \<^item> \<open>config_error\<close>: the error of \<open>config.LoadDefaultConfig\<close>;
  \<^item> \<open>idp\<close>: the answer of the provider's \<open>GetUser\<close> to an access token;
  \<^item> \<open>clock\<close>: the instant the store stamps a write with.\<close>

record world =
  open_error :: "string option"
  query_error :: "string option"
  save_error :: "string option"
  config_error :: "string option"
  idp :: "string \<Rightarrow> string + AttributeType list"
  clock :: time
  table :: "User list"
  calls :: "call list"

definition logged :: "call \<Rightarrow> world \<Rightarrow> world" where
  "logged c w = w\<lparr>calls := calls w @ [c]\<rparr>"

text \<open>\<open>db.Where("username = ?", username).First(&user)\<close>: the row with that username, or
  an error (gorm's \<open>ErrRecordNotFound\<close> when no row matches). The query has no other
  condition.\<close>

definition First :: "string \<Rightarrow> world \<Rightarrow> (string + User) \<times> world" where
  "First username w =
     (case query_error w of
        Some e \<Rightarrow> (Inl e, logged (SelectFirst username) w)
      | None \<Rightarrow>
          (case find (\<lambda>u. Username u = username) (table w) of
             None \<Rightarrow> (Inl ''record not found'', logged (SelectFirst username) w)
           | Some u \<Rightarrow> (Inr u, logged (SelectFirst username) w)))"

text \<open>The write of a row under its primary key: the row with that key is replaced, a new
  key is appended.\<close>

fun upsert :: "User \<Rightarrow> User list \<Rightarrow> User list" where
  "upsert u [] = [u]"
| "upsert u (r # rs) = (if Username r = Username u then u # rs else r # upsert u rs)"

text \<open>\<open>db.Save(&user)\<close>: all fields of the value are written under its primary key, and
  the store stamps \<open>UpdatedAt\<close>.\<close>

definition Save :: "User \<Rightarrow> world \<Rightarrow> string option \<times> world" where
  "Save u w =
     (case save_error w of
        Some e \<Rightarrow> (Some e, logged (SaveRow u) w)
      | None \<Rightarrow>
          (None, (logged (SaveRow u) w)\<lparr>table := upsert (u\<lparr>UpdatedAt := clock w\<rparr>) (table w)\<rparr>))"

text \<open>\<open>cognitoClient.Client.GetUser(ctx, &userIn)\<close>.\<close>

definition Client_GetUser :: "string \<Rightarrow> world \<Rightarrow> (string + AttributeType list) \<times> world" where
  "Client_GetUser token w = (idp w token, logged (GetUser token) w)"

section \<open>The functions of main.go\<close>

text \<open>\<open>connectDB\<close>: the handle is the world's table, so success returns nothing more.\<close>

definition connectDB :: "world \<Rightarrow> (string + unit) \<times> world" where
  "connectDB w =
     (case open_error w of
        Some err \<Rightarrow> (Inl (''error: failed to connect to AWS RDS: '' @ err), logged OpenDB w)
      | None \<Rightarrow> (Inr (), logged OpenDB w))"

definition initClient :: "world \<Rightarrow> (string + unit) \<times> world" where
  "initClient w =
     (case config_error w of
        Some err \<Rightarrow> (Inl err, logged LoadConfig w)
      | None \<Rightarrow> (Inr (), logged LoadConfig w))"

text \<open>\<open>strings.Split(s, " ")\<close>: the pieces between single spaces; never empty.\<close>

fun Split :: "string \<Rightarrow> string list" where
  "Split [] = [[]]"
| "Split (c # cs) =
     (if c = CHR '' '' then [] # Split cs
      else (case Split cs of [] \<Rightarrow> [[c]] | p # ps \<Rightarrow> (c # p) # ps))"

text \<open>A map read \<open>m[k]\<close> of a \<open>map[string]string\<close>: the empty string for a missing key.\<close>

definition index_string :: "(string \<times> string) list \<Rightarrow> string \<Rightarrow> string" where
  "index_string m k = (case map_of m k of None \<Rightarrow> [] | Some v \<Rightarrow> v)"

text \<open>The type assertion \<open>m[k].(string)\<close> in its two-valued form: \<open>None\<close> when \<open>ok\<close> is
  false (the key is missing, or its value is not a string).\<close>

definition assert_string :: "(string \<times> json) list \<Rightarrow> string \<Rightarrow> string option" where
  "assert_string m k = (case map_of m k of Some (JString s) \<Rightarrow> Some s | _ \<Rightarrow> None)"

text \<open>The loop over \<open>cogInfo.UserAttributes\<close>, from \<open>(email, nickname)\<close> so far. Reading
  through a nil pointer panics: \<open>None\<close>.\<close>

fun attributes :: "AttributeType list \<Rightarrow> string \<times> string \<Rightarrow> (string \<times> string) option" where
  "attributes [] (email, nickname) = Some (email, nickname)"
| "attributes (v # vs) (email, nickname) =
     (case Name v of
        None \<Rightarrow> None
      | Some n \<Rightarrow>
          if n = ''email'' then
            (case Value v of None \<Rightarrow> None | Some x \<Rightarrow> attributes vs (x, nickname))
          else if n = ''nickname'' then
            (case Value v of None \<Rightarrow> None | Some x \<Rightarrow> attributes vs (email, x))
          else attributes vs (email, nickname))"

definition read :: "lib \<Rightarrow> Request \<Rightarrow> world \<Rightarrow> outcome \<times> world" where
  "read lib req w =
     (case connectDB w of
        (Inl err, w1) \<Rightarrow> (Return \<lparr>StatusCode = 500, Body = err, Headers = []\<rparr> None, w1)
      | (Inr db, w1) \<Rightarrow>
     (case Authorizer (RequestContext req) of
        None \<Rightarrow> (Panic ''invalid memory address or nil pointer dereference'', w1)
      | Some authorizer \<Rightarrow>
     (case assert_string (Lambda authorizer) ''username'' of
        None \<Rightarrow>
          (Return \<lparr>StatusCode = 500, Body = ''failed to parse username'', Headers = []\<rparr> None, w1)
      | Some username \<Rightarrow>
     (case initClient w1 of
        (Inl err, w2) \<Rightarrow> (Return \<lparr>StatusCode = 500, Body = err, Headers = []\<rparr> None, w2)
      | (Inr cognitoClient, w2) \<Rightarrow>
     (case Split (index_string (Request.Headers req) ''authorization'') of
        [] \<Rightarrow> (Panic ''index out of range [1] with length 0'', w2)
      | [scheme] \<Rightarrow> (Panic ''index out of range [1] with length 1'', w2)
      | scheme # authToken # rest \<Rightarrow>
     (case Client_GetUser authToken w2 of
        (Inl err, w3) \<Rightarrow> (Return \<lparr>StatusCode = 500, Body = err, Headers = []\<rparr> None, w3)
      | (Inr cogInfo, w3) \<Rightarrow>
     (case attributes cogInfo ([], []) of
        None \<Rightarrow> (Panic ''invalid memory address or nil pointer dereference'', w3)
      | Some (email, nickname) \<Rightarrow>
          if length email = 0 then
            (Return \<lparr>StatusCode = 500, Body = ''could not find user email'', Headers = []\<rparr> None,
             w3)
          else
     (case First username w3 of
        (Inl err, w4) \<Rightarrow>
          (Return \<lparr>StatusCode = 404, Body = ''user not found'', Headers = []\<rparr> None, w4)
      | (Inr user, w4) \<Rightarrow>
     (case json_Marshal lib
             [(''username'', JString username),
              (''nickname'', JString nickname),
              (''email'', JString email),
              (''bio'', JString (Bio user)),
              (''profilePicture'', JString (ProfilePicture user))] of
        Inl err \<Rightarrow>
          (Return \<lparr>StatusCode = 500, Body = ''could not marshal JSON'', Headers = []\<rparr> None, w4)
      | Inr response \<Rightarrow>
          (Return \<lparr>StatusCode = 200, Body = json_HTMLEscape lib response,
                   Headers = [(''Content-Type'', ''application/json'')]\<rparr> None, w4))))))))))"

text \<open>The name folding of \<open>encoding/json\<close>, by which an object key finds a struct field
  whatever its case: an ASCII letter becomes its capital, and the two letters outside
  ASCII that fold to an ASCII one do so too (the long s, bytes C5 BF, to \<open>S\<close>; the Kelvin
  sign, bytes E2 84 AA, to \<open>K\<close>). Other bytes stay.\<close>

definition upper :: "char \<Rightarrow> char" where
  "upper c =
     (if (97::nat) \<le> of_char c \<and> of_char c \<le> (122::nat)
      then char_of (of_char c - (32::nat)) else c)"

fun foldName :: "string \<Rightarrow> string" where
  "foldName [] = []"
| "foldName (c # cs) =
     (if c = CHR 0xC5 \<and> take 1 cs = [CHR 0xBF] then CHR ''S'' # foldName (drop 1 cs)
      else if c = CHR 0xE2 \<and> take 2 cs = [CHR 0x84, CHR 0xAA]
        then CHR ''K'' # foldName (drop 2 cs)
      else upper c # foldName cs)"

text \<open>The fields of \<open>User\<close>. The struct has no \<open>json\<close> tags, so each field answers to its
  Go name; a key matches a field when their folded names agree.\<close>

datatype field = FCreatedAt | FUpdatedAt | FDeletedAt | FUsername | FBio | FProfilePicture

definition field_name :: "field \<Rightarrow> string" where
  "field_name f =
     (case f of
        FCreatedAt \<Rightarrow> ''CreatedAt''
      | FUpdatedAt \<Rightarrow> ''UpdatedAt''
      | FDeletedAt \<Rightarrow> ''DeletedAt''
      | FUsername \<Rightarrow> ''Username''
      | FBio \<Rightarrow> ''Bio''
      | FProfilePicture \<Rightarrow> ''ProfilePicture'')"

definition fields :: "field list" where
  "fields = [FCreatedAt, FUpdatedAt, FDeletedAt, FUsername, FBio, FProfilePicture]"

definition field_of :: "string \<Rightarrow> field option" where
  "field_of key = find (\<lambda>f. foldName (field_name f) = foldName key) fields"

text \<open>What decoding one value into one field does: the field is stored (\<open>Stored\<close>, also
  for \<open>null\<close>, which leaves it as it is); the value has the wrong JSON type for a string
  field (\<open>Mismatch\<close>: the decoder keeps the first such error and goes on); or the field's
  own \<open>UnmarshalJSON\<close> fails (\<open>Failed\<close>: the decoder stops).\<close>

datatype stored = Stored User | Mismatch string | Failed string

definition store_string :: "json \<Rightarrow> (string \<Rightarrow> User) \<Rightarrow> User \<Rightarrow> stored" where
  "store_string v put u =
     (case v of
        JNull \<Rightarrow> Stored u
      | JString s \<Rightarrow> Stored (put s)
      | _ \<Rightarrow> Mismatch ''json: cannot unmarshal value into Go struct field of type string'')"

definition store_time :: "lib \<Rightarrow> json \<Rightarrow> (time \<Rightarrow> User) \<Rightarrow> User \<Rightarrow> stored" where
  "store_time lib v put u =
     (case v of
        JNull \<Rightarrow> Stored u
      | JString s \<Rightarrow>
          (case time_parse lib s of
             None \<Rightarrow> Failed ''parsing time: cannot parse''
           | Some t \<Rightarrow> Stored (put t))
      | _ \<Rightarrow> Failed ''Time.UnmarshalJSON: input is not a JSON string'')"

definition store :: "lib \<Rightarrow> field \<Rightarrow> json \<Rightarrow> User \<Rightarrow> stored" where
  "store lib f v u =
     (case f of
        FCreatedAt \<Rightarrow> store_time lib v (\<lambda>t. u\<lparr>CreatedAt := t\<rparr>) u
      | FUpdatedAt \<Rightarrow> store_time lib v (\<lambda>t. u\<lparr>UpdatedAt := t\<rparr>) u
      | FDeletedAt \<Rightarrow> store_time lib v (\<lambda>t. u\<lparr>DeletedAt := t\<rparr>) u
      | FUsername \<Rightarrow> store_string v (\<lambda>s. u\<lparr>Username := s\<rparr>) u
      | FBio \<Rightarrow> store_string v (\<lambda>s. u\<lparr>Bio := s\<rparr>) u
      | FProfilePicture \<Rightarrow> store_string v (\<lambda>s. u\<lparr>ProfilePicture := s\<rparr>) u)"

text \<open>Decoding an object into the struct, key by key in the order of the text: a key that
  matches no field is skipped, a later key overwrites an earlier one. The result is the
  error and the struct as the decoder leaves it.\<close>

fun object :: "lib \<Rightarrow> (string \<times> json) list \<Rightarrow> string option \<Rightarrow> User \<Rightarrow> string option \<times> User"
where
  "object lib [] saved u = (saved, u)"
| "object lib ((key, v) # kvs) saved u =
     (case field_of key of
        None \<Rightarrow> object lib kvs saved u
      | Some f \<Rightarrow>
          (case store lib f v u of
             Stored u' \<Rightarrow> object lib kvs saved u'
           | Mismatch e \<Rightarrow>
               object lib kvs (case saved of None \<Rightarrow> Some e | Some e0 \<Rightarrow> Some e0) u
           | Failed e \<Rightarrow> (Some e, u)))"

text \<open>\<open>json.Unmarshal([]byte(data), &user)\<close>: a text that is not JSON is refused before
  anything is stored; \<open>null\<close> stores nothing and is no error; an object is decoded field
  by field; any other value cannot become a struct.\<close>

definition json_Unmarshal :: "lib \<Rightarrow> string \<Rightarrow> User \<Rightarrow> string option \<times> User" where
  "json_Unmarshal lib data u =
     (case json_parse lib data of
        None \<Rightarrow> (Some ''invalid character looking for beginning of value'', u)
      | Some JNull \<Rightarrow> (None, u)
      | Some (JObject kvs) \<Rightarrow> object lib kvs None u
      | Some _ \<Rightarrow> (Some ''json: cannot unmarshal value into Go value of type main.User'', u))"

definition update :: "lib \<Rightarrow> Request \<Rightarrow> world \<Rightarrow> outcome \<times> world" where
  "update lib req w =
     (case connectDB w of
        (Inl err, w1) \<Rightarrow>
          (Return \<lparr>StatusCode = 500, Body = err, Headers = []\<rparr> (Some err), w1)
      | (Inr db, w1) \<Rightarrow>
     (case Authorizer (RequestContext req) of
        None \<Rightarrow> (Panic ''invalid memory address or nil pointer dereference'', w1)
      | Some authorizer \<Rightarrow>
     (case assert_string (Lambda authorizer) ''username'' of
        None \<Rightarrow>
          (Return \<lparr>StatusCode = 500, Body = ''failed to parse username'', Headers = []\<rparr> None, w1)
      | Some username \<Rightarrow>
     (case First username w1 of
        (Inl err, w2) \<Rightarrow>
          (Return \<lparr>StatusCode = 404, Body = ''user not found'', Headers = []\<rparr> None, w2)
      | (Inr user, w2) \<Rightarrow>
     (case json_Unmarshal lib (Request.Body req) user of
        (Some err, user') \<Rightarrow>
          (Return \<lparr>StatusCode = 400, Body = ''invalid request body'', Headers = []\<rparr> None, w2)
      | (None, user') \<Rightarrow>
     (case Save user' w2 of
        (Some err, w3) \<Rightarrow> (Return \<lparr>StatusCode = 500, Body = err, Headers = []\<rparr> None, w3)
      | (None, w3) \<Rightarrow>
          (Return \<lparr>StatusCode = 200, Body = ''user updated successfully'', Headers = []\<rparr> None,
           w3)))))))"

definition handler :: "lib \<Rightarrow> Request \<Rightarrow> world \<Rightarrow> outcome \<times> world" where
  "handler lib req w =
     (if Method (HTTP (RequestContext req)) = ''GET'' then read lib req w
      else if Method (HTTP (RequestContext req)) = ''PUT'' then update lib req w
      else
        (Return \<lparr>StatusCode = 405,
                 Body = ''HTTP method '' @ [CHR 0x27] @ Method (HTTP (RequestContext req))
                          @ [CHR 0x27] @ '' not allowed'',
                 Headers = []\<rparr> None, w))"

text \<open>The content of one field of the struct, to compare a field before and after.\<close>

datatype cell = Instant time | Text string

definition field_value :: "field \<Rightarrow> User \<Rightarrow> cell" where
  "field_value f u =
     (case f of
        FCreatedAt \<Rightarrow> Instant (CreatedAt u)
      | FUpdatedAt \<Rightarrow> Instant (UpdatedAt u)
      | FDeletedAt \<Rightarrow> Instant (DeletedAt u)
      | FUsername \<Rightarrow> Text (Username u)
      | FBio \<Rightarrow> Text (Bio u)
      | FProfilePicture \<Rightarrow> Text (ProfilePicture u))"

section \<open>The words of the specification\<close>

text \<open>The value the identity provider gives for an attribute name: the value of the
  attribute of that name, the empty string when there is none. (The specification takes
  \<open>email\<close> and \<open>nickname\<close> from the list "by name match".)\<close>

definition attribute_value :: "string \<Rightarrow> AttributeType list \<Rightarrow> string" where
  "attribute_value name attrs =
     (case find (\<lambda>a. Name a = Some name) attrs of
        None \<Rightarrow> []
      | Some a \<Rightarrow> (case Value a of None \<Rightarrow> [] | Some x \<Rightarrow> x))"

section \<open>A concrete world\<close>

text \<open>One user, \<open>alice\<close>, with a row in the table and an account at the identity provider
  that the access token \<open>token\<close> opens; the library functions on the few texts the
  examples use.\<close>

definition alice :: User where
  "alice = \<lparr>CreatedAt = 1, UpdatedAt = 2, DeletedAt = 0,
     Username = ''alice'', Bio = ''hello'', ProfilePicture = ''a.png''\<rparr>"

definition alice_attributes :: "AttributeType list" where
  "alice_attributes =
     [\<lparr>Name = Some ''sub'', Value = Some ''1234''\<rparr>,
      \<lparr>Name = Some ''email'', Value = Some ''alice@example.com''\<rparr>,
      \<lparr>Name = Some ''nickname'', Value = Some ''Al''\<rparr>]"

definition alice_view :: "(string \<times> json) list" where
  "alice_view =
     [(''username'', JString ''alice''),
      (''nickname'', JString ''Al''),
      (''email'', JString ''alice@example.com''),
      (''bio'', JString ''hello''),
      (''profilePicture'', JString ''a.png'')]"

definition alice_text :: string where
  \<open>alice_text =
     ''{"bio":"hello","email":"alice@example.com","nickname":"Al",'' @
     ''"profilePicture":"a.png","username":"alice"}''\<close>

definition bio_patch :: string where
  \<open>bio_patch = ''{"bio":"new bio"}''\<close>

definition username_patch :: string where
  \<open>username_patch = ''{"username":"bob"}''\<close>

definition example_lib :: lib where
  "example_lib =
     \<lparr>json_parse = (\<lambda>s.
        if s = bio_patch then Some (JObject [(''bio'', JString ''new bio'')])
        else if s = username_patch then Some (JObject [(''username'', JString ''bob'')])
        else None),
      time_parse = (\<lambda>s. None),
      json_Marshal = (\<lambda>m. if m = alice_view then Inr alice_text else Inl ''unsupported''),
      json_HTMLEscape = (\<lambda>s. s)\<rparr>"

definition example_world :: world where
  "example_world =
     \<lparr>open_error = None, query_error = None, save_error = None, config_error = None,
      idp = (\<lambda>t. if t = ''token'' then Inr alice_attributes
                  else Inl ''NotAuthorizedException: Invalid Access Token''),
      clock = 9,
      table = [alice],
      calls = []\<rparr>"

text \<open>A request of \<open>alice\<close>: its method, its \<open>authorization\<close> header and its body.\<close>

definition request_of_alice :: "string \<Rightarrow> string \<Rightarrow> string \<Rightarrow> Request" where
  "request_of_alice m h b =
     \<lparr>RequestContext =
        \<lparr>HTTP = \<lparr>Method = m\<rparr>,
         Authorizer = Some \<lparr>Lambda = [(''username'', JString ''alice'')]\<rparr>\<rparr>,
      Request.Headers = [(''authorization'', h)],
      Request.Body = b\<rparr>"

section \<open>Properties\<close>

lemmas step_defs = connectDB_def initClient_def Client_GetUser_def First_def Save_def logged_def

lemma read_error_nil: "fst (read lib req w) = Return r err \<Longrightarrow> err = None"
  by (auto simp: read_def step_defs
      split: option.splits sum.splits list.splits prod.splits if_splits)

lemma update_error_only_open:
  "fst (update lib req w) = Return r (Some err) \<Longrightarrow> open_error w \<noteq> None"
  by (auto simp: update_def step_defs
      split: option.splits sum.splits list.splits prod.splits if_splits)

lemma update_open_error:
  "open_error w = Some e \<Longrightarrow>
   fst (update lib req w) =
     Return \<lparr>StatusCode = 500, Body = ''error: failed to connect to AWS RDS: '' @ e,
             Headers = []\<rparr>
       (Some (''error: failed to connect to AWS RDS: '' @ e))"
  by (simp add: update_def step_defs)

lemma read_open_error:
  "open_error w = Some e \<Longrightarrow>
   fst (read lib req w) =
     Return \<lparr>StatusCode = 500, Body = ''error: failed to connect to AWS RDS: '' @ e,
             Headers = []\<rparr> None"
  by (simp add: read_def step_defs)


subsection \<open>The loop over the attributes\<close>

lemma attributes_no_email:
  "\<forall>a \<in> set attrs. Name a \<noteq> None \<and> Value a \<noteq> None \<Longrightarrow>
   \<forall>a \<in> set attrs. Name a = Some ''email'' \<longrightarrow> Value a = Some [] \<Longrightarrow>
   \<exists>n. attributes attrs ([], nickname) = Some ([], n)"
proof (induction attrs arbitrary: nickname)
  case Nil
  then show ?case by simp
next
  case (Cons v vs)
  then obtain n x where nv: "Name v = Some n" "Value v = Some x" by auto
  show ?case
  proof (cases "n = ''email''")
    case True
    with Cons.prems nv have "x = []" by simp
    with True nv Cons show ?thesis by simp
  next
    case False
    with nv Cons show ?thesis by simp
  qed
qed

text \<open>With one attribute per name, the loop finds what a lookup by name finds.\<close>

lemma attributes_by_name:
  "\<forall>a \<in> set attrs. Name a \<noteq> None \<and> Value a \<noteq> None \<Longrightarrow>
   distinct (map Name attrs) \<Longrightarrow>
   attributes attrs (email, nickname) =
     Some (case find (\<lambda>a. Name a = Some ''email'') attrs of
             None \<Rightarrow> email
           | Some a \<Rightarrow> (case Value a of None \<Rightarrow> [] | Some x \<Rightarrow> x),
           case find (\<lambda>a. Name a = Some ''nickname'') attrs of
             None \<Rightarrow> nickname
           | Some a \<Rightarrow> (case Value a of None \<Rightarrow> [] | Some x \<Rightarrow> x))"
proof (induction attrs arbitrary: email nickname)
  case Nil
  then show ?case by simp
next
  case (Cons v vs)
  then obtain n x where nv: "Name v = Some n" "Value v = Some x" by auto
  from Cons.prems nv have absent: "\<forall>a \<in> set vs. Name a \<noteq> Some n"
    by (auto intro: rev_image_eqI)
  have wf: "\<forall>a \<in> set vs. Name a \<noteq> None \<and> Value a \<noteq> None" and d: "distinct (map Name vs)"
    using Cons.prems by auto
  show ?case
  proof (cases "n = ''email''")
    case True
    with absent have "find (\<lambda>a. Name a = Some ''email'') vs = None"
      by (simp add: find_None_iff)
    with True nv Cons.IH [OF wf d, of x nickname] show ?thesis by simp
  next
    case ne: False
    show ?thesis
    proof (cases "n = ''nickname''")
      case True
      with absent have "find (\<lambda>a. Name a = Some ''nickname'') vs = None"
        by (simp add: find_None_iff)
      with True nv Cons.IH [OF wf d, of email x] show ?thesis by simp
    next
      case False
      with ne nv Cons.IH [OF wf d, of email nickname] show ?thesis by simp
    qed
  qed
qed

lemma find_unique:
  "distinct (map f xs) \<Longrightarrow> x \<in> set xs \<Longrightarrow> find (\<lambda>u. f u = f x) xs = Some x"
  by (induction xs) (auto simp: rev_image_eqI)


subsection \<open>Decoding the body\<close>

lemma field_of_bio: "field_of ''bio'' = Some FBio"
  by code_simp

lemma field_of_username: "field_of ''username'' = Some FUsername"
  by code_simp

text \<open>Storing into one field leaves every other field as it was.\<close>

lemma store_frame:
  "store lib g v u = Stored u' \<Longrightarrow> g \<noteq> f \<Longrightarrow> field_value f u' = field_value f u"
  by (cases g; cases f)
     (auto simp: store_def store_string_def store_time_def field_value_def
           split: json.splits option.splits)

lemma object_frame:
  "\<forall>k \<in> fst ` set kvs. field_of k \<noteq> Some f \<Longrightarrow>
   field_value f (snd (object lib kvs saved u)) = field_value f u"
proof (induction kvs arbitrary: saved u)
  case Nil
  then show ?case by simp
next
  case (Cons kv kvs)
  obtain k v where kv: "kv = (k, v)" by (cases kv)
  from Cons.prems kv have k: "field_of k \<noteq> Some f"
    and rest: "\<forall>k \<in> fst ` set kvs. field_of k \<noteq> Some f" by auto
  show ?case
  proof (cases "field_of k")
    case None
    with kv Cons.IH [OF rest] show ?thesis by simp
  next
    case (Some g)
    with k have gf: "g \<noteq> f" by simp
    show ?thesis
    proof (cases "store lib g v u")
      case (Stored u')
      with Some kv Cons.IH [OF rest, of saved u'] store_frame [OF Stored gf]
      show ?thesis by simp
    next
      case (Mismatch e)
      with Some kv Cons.IH [OF rest] show ?thesis by simp
    next
      case (Failed e)
      with Some kv show ?thesis by simp
    qed
  qed
qed

lemma Unmarshal_frame:
  "(\<forall>kvs. json_parse lib data = Some (JObject kvs) \<longrightarrow>
      (\<forall>k \<in> fst ` set kvs. field_of k \<noteq> Some f)) \<Longrightarrow>
   field_value f (snd (json_Unmarshal lib data u)) = field_value f u"
  by (auto simp: json_Unmarshal_def object_frame split: option.splits json.splits)

text \<open>Whether decoding fails does not depend on what the struct held.\<close>

lemma store_kind:
  "(case store lib f v u of
      Stored x \<Rightarrow> (\<exists>y. store lib f v u' = Stored y)
    | Mismatch e \<Rightarrow> store lib f v u' = Mismatch e
    | Failed e \<Rightarrow> store lib f v u' = Failed e)"
  by (cases f)
     (auto simp: store_def store_string_def store_time_def split: json.splits option.splits)

lemma object_error_same:
  "fst (object lib kvs saved u) = fst (object lib kvs saved u')"
proof (induction kvs arbitrary: saved u u')
  case Nil
  then show ?case by simp
next
  case (Cons kv kvs)
  obtain k v where kv: "kv = (k, v)" by (cases kv)
  show ?case
  proof (cases "field_of k")
    case None
    with kv Cons.IH show ?thesis by simp
  next
    case (Some g)
    show ?thesis
    proof (cases "store lib g v u")
      case (Stored x)
      with store_kind [where lib = lib and f = g and v = v and u = u and u' = u'] obtain y where "store lib g v u' = Stored y" by auto
      with Stored Some kv Cons.IH [of saved x y] show ?thesis by simp
    next
      case (Mismatch e)
      with store_kind [where lib = lib and f = g and v = v and u = u and u' = u'] have "store lib g v u' = Mismatch e" by simp
      with Mismatch Some kv Cons.IH show ?thesis by simp
    next
      case (Failed e)
      with store_kind [where lib = lib and f = g and v = v and u = u and u' = u'] have "store lib g v u' = Failed e" by simp
      with Failed Some kv show ?thesis by simp
    qed
  qed
qed

lemma Unmarshal_error_same:
  "fst (json_Unmarshal lib data u) = fst (json_Unmarshal lib data u')"
  using object_error_same
  by (auto simp: json_Unmarshal_def split: option.splits json.splits)

subsection \<open>The table\<close>

lemma find_upsert: "find (\<lambda>r. Username r = Username u) (upsert u rs) = Some u"
  by (induction rs) auto

lemma keys_upsert:
  "Username u \<in> Username ` set rs \<Longrightarrow> map Username (upsert u rs) = map Username rs"
  by (induction rs) auto

lemma find_map_key:
  "(\<And>u. Username (g u) = Username u) \<Longrightarrow>
   find (\<lambda>u. Username u = n) (map g rs) = map_option g (find (\<lambda>u. Username u = n) rs)"
  by (induction rs) auto

text \<open>The response of \<open>update\<close>, step by step.\<close>

lemma update_response:
  "fst (update lib req w) =
     (case open_error w of
        Some e \<Rightarrow>
          Return \<lparr>StatusCode = 500, Body = ''error: failed to connect to AWS RDS: '' @ e,
                  Headers = []\<rparr> (Some (''error: failed to connect to AWS RDS: '' @ e))
      | None \<Rightarrow>
     (case Authorizer (RequestContext req) of
        None \<Rightarrow> Panic ''invalid memory address or nil pointer dereference''
      | Some a \<Rightarrow>
     (case assert_string (Lambda a) ''username'' of
        None \<Rightarrow>
          Return \<lparr>StatusCode = 500, Body = ''failed to parse username'', Headers = []\<rparr> None
      | Some username \<Rightarrow>
     (case query_error w of
        Some e \<Rightarrow> Return \<lparr>StatusCode = 404, Body = ''user not found'', Headers = []\<rparr> None
      | None \<Rightarrow>
     (case find (\<lambda>u. Username u = username) (table w) of
        None \<Rightarrow> Return \<lparr>StatusCode = 404, Body = ''user not found'', Headers = []\<rparr> None
      | Some user \<Rightarrow>
     (case fst (json_Unmarshal lib (Request.Body req) user) of
        Some e \<Rightarrow> Return \<lparr>StatusCode = 400, Body = ''invalid request body'', Headers = []\<rparr> None
      | None \<Rightarrow>
     (case save_error w of
        Some e \<Rightarrow> Return \<lparr>StatusCode = 500, Body = e, Headers = []\<rparr> None
      | None \<Rightarrow>
          Return \<lparr>StatusCode = 200, Body = ''user updated successfully'', Headers = []\<rparr>
            None)))))))"
  by (simp add: update_def step_defs split: option.splits sum.splits prod.splits)

lemmas all_splits = option.splits sum.splits list.splits prod.splits if_splits json.splits

text \<open>A status 404 comes from a failed lookup, and from nowhere else.\<close>

lemma read_404_lookup_failed:
  "fst (read lib req w) = Return r e \<Longrightarrow> StatusCode r = 404 \<Longrightarrow>
   \<exists>a username. Authorizer (RequestContext req) = Some a
     \<and> assert_string (Lambda a) ''username'' = Some username
     \<and> (query_error w \<noteq> None \<or> find (\<lambda>u. Username u = username) (table w) = None)"
  by (auto simp: read_def step_defs split: all_splits)

lemma update_404_lookup_failed:
  "fst (update lib req w) = Return r e \<Longrightarrow> StatusCode r = 404 \<Longrightarrow>
   \<exists>a username. Authorizer (RequestContext req) = Some a
     \<and> assert_string (Lambda a) ''username'' = Some username
     \<and> (query_error w \<noteq> None \<or> find (\<lambda>u. Username u = username) (table w) = None)"
  by (auto simp: update_def step_defs split: all_splits)

subsection \<open>The claims\<close>

text \<open>
  C2, as the code has it. A GET request whose \<open>authorization\<close> header holds no space
  (here \<open>Bearer\<close>, from a caller with a valid username, the database and the provider's
  client at hand) does not get a response: \<open>strings.Split\<close> returns one piece, and taking
  the piece of index 1 panics.
\<close>

theorem read_header_without_space_panics:
  "fst (read example_lib (request_of_alice ''GET'' ''Bearer'' []) example_world)
     = Panic ''index out of range [1] with length 1''"
  by (simp add: read_def step_defs request_of_alice_def example_world_def
      assert_string_def index_string_def)

text \<open>
  C9. A request whose method is neither \<open>GET\<close> nor \<open>PUT\<close> is answered with status 405
  and the message \<open>HTTP method '<method>' not allowed\<close>, with a nil error, and the world
  is as it was: no call to the store or to the identity provider was made, and the table
  is untouched.
\<close>

theorem handler_method_not_allowed:
  assumes "Method (HTTP (RequestContext req)) \<noteq> ''GET''"
    and "Method (HTTP (RequestContext req)) \<noteq> ''PUT''"
  shows "handler lib req w =
     (Return \<lparr>StatusCode = 405,
              Body = ''HTTP method '' @ [CHR 0x27] @ Method (HTTP (RequestContext req))
                       @ [CHR 0x27] @ '' not allowed'',
              Headers = []\<rparr> None, w)"
  using assms by (simp add: handler_def)

theorem handler_method_not_allowed_witness:
  "handler example_lib (request_of_alice ''DELETE'' ''Bearer token'' []) example_world =
     (Return \<lparr>StatusCode = 405,
              Body = ''HTTP method '' @ [CHR 0x27] @ ''DELETE'' @ [CHR 0x27] @ '' not allowed'',
              Headers = []\<rparr> None, example_world)
   \<and> calls example_world = []"
  using handler_method_not_allowed
    [of "request_of_alice ''DELETE'' ''Bearer token'' []" example_lib example_world]
  by (simp add: request_of_alice_def example_world_def)

text \<open>
  C10. When the connection to the database fails, \<open>update\<close> returns its 500 response
  together with a non-nil error, and \<open>read\<close> returns the same response with a nil error.
  Every response that \<open>read\<close> returns comes with a nil error, and \<open>update\<close> returns a
  non-nil error on no other path than the failed connection.
\<close>

theorem connection_failure_error_contract:
  "(open_error w = Some e \<longrightarrow>
      fst (update lib req w) =
        Return \<lparr>StatusCode = 500, Body = ''error: failed to connect to AWS RDS: '' @ e,
                Headers = []\<rparr>
          (Some (''error: failed to connect to AWS RDS: '' @ e))
    \<and> fst (read lib req w) =
        Return \<lparr>StatusCode = 500, Body = ''error: failed to connect to AWS RDS: '' @ e,
                Headers = []\<rparr> None)
   \<and> (\<forall>r err. fst (read lib req w) = Return r err \<longrightarrow> err = None)
   \<and> (\<forall>r err. fst (update lib req w) = Return r err \<longrightarrow> err \<noteq> None \<longrightarrow> open_error w \<noteq> None)"
proof (intro conjI impI allI)
  assume "open_error w = Some e"
  then show "fst (update lib req w) =
        Return \<lparr>StatusCode = 500, Body = ''error: failed to connect to AWS RDS: '' @ e,
                Headers = []\<rparr>
          (Some (''error: failed to connect to AWS RDS: '' @ e))"
    by (rule update_open_error)
next
  assume "open_error w = Some e"
  then show "fst (read lib req w) =
        Return \<lparr>StatusCode = 500, Body = ''error: failed to connect to AWS RDS: '' @ e,
                Headers = []\<rparr> None"
    by (rule read_open_error)
next
  fix r err
  assume "fst (read lib req w) = Return r err"
  then show "err = None" by (rule read_error_nil)
next
  fix r err
  assume ret: "fst (update lib req w) = Return r err" and "err \<noteq> None"
  then obtain x where "err = Some x" by auto
  with ret show "open_error w \<noteq> None" using update_error_only_open by blast
qed

theorem connection_failure_error_contract_witness:
  "fst (update example_lib (request_of_alice ''PUT'' [] bio_patch)
          (example_world\<lparr>open_error := Some ''dial tcp: i/o timeout''\<rparr>)) =
     Return \<lparr>StatusCode = 500,
             Body = ''error: failed to connect to AWS RDS: dial tcp: i/o timeout'',
             Headers = []\<rparr>
       (Some ''error: failed to connect to AWS RDS: dial tcp: i/o timeout'')
   \<and> fst (read example_lib (request_of_alice ''PUT'' [] bio_patch)
          (example_world\<lparr>open_error := Some ''dial tcp: i/o timeout''\<rparr>)) =
     Return \<lparr>StatusCode = 500,
             Body = ''error: failed to connect to AWS RDS: dial tcp: i/o timeout'',
             Headers = []\<rparr> None"
  using connection_failure_error_contract
    [of "example_world\<lparr>open_error := Some ''dial tcp: i/o timeout''\<rparr>"
        "''dial tcp: i/o timeout''" example_lib "request_of_alice ''PUT'' [] bio_patch"]
  by simp

text \<open>
  C8. Take a GET request that gets an answer from the identity provider (the connection and
  the client are there, the caller has a username, the header has its two pieces), an
  answer of attributes with their names and values in which no attribute named \<open>email\<close>
  has a value other than the empty string. Then \<open>read\<close> returns status 500 with the body
  \<open>could not find user email\<close>, whatever rows the table holds and whether or not its
  queries fail; the store is not even queried.
\<close>

theorem read_missing_email:
  assumes "open_error w = None"
    and "Authorizer (RequestContext req) = Some a"
    and "map_of (Lambda a) ''username'' = Some (JString username)"
    and "config_error w = None"
    and "Split (index_string (Request.Headers req) ''authorization'') = scheme # token # rest"
    and "idp w token = Inr attrs"
    and "\<forall>a \<in> set attrs. Name a \<noteq> None \<and> Value a \<noteq> None"
    and "\<forall>a \<in> set attrs. Name a = Some ''email'' \<longrightarrow> Value a = Some []"
  shows "read lib req (w\<lparr>query_error := qe, table := rows\<rparr>) =
     (Return \<lparr>StatusCode = 500, Body = ''could not find user email'', Headers = []\<rparr> None,
      w\<lparr>query_error := qe, table := rows,
        calls := calls w @ [OpenDB, LoadConfig, GetUser token]\<rparr>)"
proof -
  obtain n where "attributes attrs ([], []) = Some ([], n)"
    using attributes_no_email [OF assms(7,8)] by blast
  with assms(1-6) show ?thesis
    by (simp add: read_def step_defs assert_string_def)
qed

theorem read_missing_email_witness:
  "fst (read example_lib (request_of_alice ''GET'' ''Bearer token'' [])
     (example_world
        \<lparr>idp := (\<lambda>t. Inr [\<lparr>Name = Some ''nickname'', Value = Some ''Al''\<rparr>]),
         query_error := None, table := []\<rparr>)) =
     Return \<lparr>StatusCode = 500, Body = ''could not find user email'', Headers = []\<rparr> None
   \<and> fst (read example_lib (request_of_alice ''GET'' ''Bearer token'' [])
     (example_world
        \<lparr>idp := (\<lambda>t. Inr [\<lparr>Name = Some ''nickname'', Value = Some ''Al''\<rparr>]),
         query_error := None, table := [alice]\<rparr>)) =
     Return \<lparr>StatusCode = 500, Body = ''could not find user email'', Headers = []\<rparr> None"
  using
    read_missing_email
      [where w = "example_world\<lparr>idp := (\<lambda>t. Inr [\<lparr>Name = Some ''nickname'', Value = Some ''Al''\<rparr>])\<rparr>"
         and req = "request_of_alice ''GET'' ''Bearer token'' []"
         and a = "\<lparr>Lambda = [(''username'', JString ''alice'')]\<rparr>" and username = "''alice''"
         and scheme = "''Bearer''" and token = "''token''" and rest = "[]"
         and attrs = "[\<lparr>Name = Some ''nickname'', Value = Some ''Al''\<rparr>]"
         and lib = example_lib and qe = None and rows = "[]"]
    read_missing_email
      [where w = "example_world\<lparr>idp := (\<lambda>t. Inr [\<lparr>Name = Some ''nickname'', Value = Some ''Al''\<rparr>])\<rparr>"
         and req = "request_of_alice ''GET'' ''Bearer token'' []"
         and a = "\<lparr>Lambda = [(''username'', JString ''alice'')]\<rparr>" and username = "''alice''"
         and scheme = "''Bearer''" and token = "''token''" and rest = "[]"
         and attrs = "[\<lparr>Name = Some ''nickname'', Value = Some ''Al''\<rparr>]"
         and lib = example_lib and qe = None and rows = "[alice]"]
  by (simp add: request_of_alice_def example_world_def index_string_def)

text \<open>
  C5. Take a GET request of a caller with a username, with a token for which the identity
  provider returns attributes (one per name, with their names and values) whose \<open>email\<close>
  is not empty, and with a row of that username in the table (the connection, the client
  and the query at hand). Then \<open>read\<close> returns status 200, the content type
  \<open>application/json\<close> and, as its body, the serialisation of the map of exactly the five
  keys \<open>username\<close>, \<open>nickname\<close>, \<open>email\<close>, \<open>bio\<close>, \<open>profilePicture\<close>: the username, bio and
  picture of the row, the email and nickname of the provider.
\<close>

theorem read_merges_profile:
  assumes "open_error w = None"
    and "Authorizer (RequestContext req) = Some a"
    and "map_of (Lambda a) ''username'' = Some (JString username)"
    and "config_error w = None"
    and "Split (index_string (Request.Headers req) ''authorization'') = scheme # token # rest"
    and "idp w token = Inr attrs"
    and "\<forall>a \<in> set attrs. Name a \<noteq> None \<and> Value a \<noteq> None"
    and "distinct (map Name attrs)"
    and "attribute_value ''email'' attrs \<noteq> []"
    and "query_error w = None"
    and "distinct (map Username (table w))"
    and "user \<in> set (table w)"
    and "Username user = username"
    and "json_Marshal lib
           [(''username'', JString (Username user)),
            (''nickname'', JString (attribute_value ''nickname'' attrs)),
            (''email'', JString (attribute_value ''email'' attrs)),
            (''bio'', JString (Bio user)),
            (''profilePicture'', JString (ProfilePicture user))] = Inr response"
  shows "fst (read lib req w) =
     Return \<lparr>StatusCode = 200, Body = json_HTMLEscape lib response,
             Headers = [(''Content-Type'', ''application/json'')]\<rparr> None"
proof -
  have scan: "attributes attrs ([], []) =
      Some (attribute_value ''email'' attrs, attribute_value ''nickname'' attrs)"
    using attributes_by_name [OF assms(7,8), of "[]" "[]"]
    by (simp add: attribute_value_def)
  have row: "find (\<lambda>u. Username u = username) (table w) = Some user"
    using find_unique [OF assms(11,12)] assms(13) by simp
  from scan row assms show ?thesis
    by (simp add: read_def step_defs assert_string_def)
qed

theorem read_merges_profile_witness:
  "fst (read example_lib (request_of_alice ''GET'' ''Bearer token'' []) example_world) =
     Return \<lparr>StatusCode = 200, Body = alice_text,
             Headers = [(''Content-Type'', ''application/json'')]\<rparr> None"
  using read_merges_profile
    [where w = example_world and req = "request_of_alice ''GET'' ''Bearer token'' []"
       and a = "\<lparr>Lambda = [(''username'', JString ''alice'')]\<rparr>" and username = "''alice''"
       and scheme = "''Bearer''" and token = "''token''" and rest = "[]"
       and attrs = alice_attributes and user = alice and lib = example_lib
       and response = alice_text]
  by (simp add: request_of_alice_def example_world_def example_lib_def index_string_def
      alice_attributes_def alice_def alice_view_def attribute_value_def)

text \<open>
  C1, as the code has it. \<open>alice\<close> sends the body \<open>{"username":"bob"}\<close>. The key finds
  the field \<open>Username\<close> of the loaded struct, so the record handed to the store has the
  primary key \<open>bob\<close>: the table gets a row of that key with the profile of \<open>alice\<close>, and
  the response is 200.
\<close>

theorem update_overwrites_username:
  "update example_lib (request_of_alice ''PUT'' [] username_patch) example_world =
     (Return \<lparr>StatusCode = 200, Body = ''user updated successfully'', Headers = []\<rparr> None,
      example_world
        \<lparr>table := [alice, alice\<lparr>Username := ''bob'', UpdatedAt := 9\<rparr>],
         calls := [OpenDB, SelectFirst ''alice'', SaveRow (alice\<lparr>Username := ''bob''\<rparr>)]\<rparr>)"
  by (simp add: update_def step_defs request_of_alice_def example_world_def example_lib_def
      assert_string_def json_Unmarshal_def field_of_username store_def store_string_def
      alice_def bio_patch_def username_patch_def)

text \<open>
  C1, amended. Take an update request of a caller with a username who has a row in the
  table, with a body that has no key answering to the field \<open>Username\<close> (whatever its
  case). Then the primary keys of the table are after the request what they were before,
  and every record that the request hands to the store carries the caller's username.
\<close>

theorem update_keeps_username:
  assumes "Authorizer (RequestContext req) = Some a"
    and "map_of (Lambda a) ''username'' = Some (JString username)"
    and "\<exists>u \<in> set (table w). Username u = username"
    and "\<forall>kvs. json_parse lib (Request.Body req) = Some (JObject kvs) \<longrightarrow>
           (\<forall>k \<in> fst ` set kvs. field_of k \<noteq> Some FUsername)"
  shows "map Username (table (snd (update lib req w))) = map Username (table w)
    \<and> (\<forall>u. SaveRow u \<in> set (calls (snd (update lib req w))) \<longrightarrow>
           SaveRow u \<in> set (calls w) \<or> Username u = username)"
proof -
  have fr: "\<And>u e u'. json_Unmarshal lib (Request.Body req) u = (e, u') \<Longrightarrow> Username u' = Username u"
  proof -
    fix u e u'
    assume "json_Unmarshal lib (Request.Body req) u = (e, u')"
    then have "u' = snd (json_Unmarshal lib (Request.Body req) u)" by simp
    with Unmarshal_frame [where f = FUsername, OF assms(4), of u]
    show "Username u' = Username u" by (simp add: field_value_def)
  qed
  have found: "\<And>u. find (\<lambda>u. Username u = username) (table w) = Some u \<Longrightarrow>
      Username u = username \<and> username \<in> Username ` set (table w)"
    using assms(3) by (auto simp: find_Some_iff)
  show ?thesis
    using assms(1,2)
    by (auto simp: update_def step_defs assert_string_def keys_upsert
        dest!: fr found split: option.splits sum.splits prod.splits)
qed

theorem update_keeps_username_witness:
  "map Username
     (table (snd (update example_lib (request_of_alice ''PUT'' [] bio_patch) example_world)))
   = [''alice'']"
  using update_keeps_username
    [where w = example_world and req = "request_of_alice ''PUT'' [] bio_patch"
       and a = "\<lparr>Lambda = [(''username'', JString ''alice'')]\<rparr>" and username = "''alice''"
       and lib = example_lib]
  by (simp add: request_of_alice_def example_world_def example_lib_def alice_def field_of_bio)

text \<open>
  C3, as the code has it. The row of \<open>alice\<close> has a \<open>DeletedAt\<close> that is not the zero
  instant. The lookup returns it all the same: \<open>read\<close> answers 200 with the profile and
  \<open>update\<close> answers 200, where the claim expects 404.
\<close>

theorem soft_deleted_row_is_found:
  "fst (read example_lib (request_of_alice ''GET'' ''Bearer token'' [])
          (example_world\<lparr>table := [alice\<lparr>DeletedAt := 5\<rparr>]\<rparr>)) =
     Return \<lparr>StatusCode = 200, Body = alice_text,
             Headers = [(''Content-Type'', ''application/json'')]\<rparr> None
   \<and> fst (update example_lib (request_of_alice ''PUT'' [] bio_patch)
          (example_world\<lparr>table := [alice\<lparr>DeletedAt := 5\<rparr>]\<rparr>)) =
     Return \<lparr>StatusCode = 200, Body = ''user updated successfully'', Headers = []\<rparr> None"
  by (simp add: read_def update_def step_defs request_of_alice_def example_world_def
      example_lib_def assert_string_def index_string_def alice_attributes_def alice_def
      alice_view_def json_Unmarshal_def field_of_bio store_def store_string_def)

text \<open>
  C3, amended. Take a caller with a username whose row is in the table, in a world whose
  queries do not fail, and give the rows of the table any \<open>DeletedAt\<close> whatever, the zero
  instant or not. Then the lookup of that username returns the caller's row, with the
  \<open>DeletedAt\<close> it was given, and neither \<open>read\<close> nor \<open>update\<close> answers 404. Moreover, in
  every world, \<open>read\<close> and \<open>update\<close> give the same response whatever \<open>DeletedAt\<close> the rows
  are given: the lookup selects by username alone.
\<close>

theorem lookup_returns_row_whatever_DeletedAt:
  "(query_error w = None \<and> distinct (map Username (table w)) \<and> user \<in> set (table w)
      \<and> Authorizer (RequestContext req) = Some a
      \<and> map_of (Lambda a) ''username'' = Some (JString (Username user))
    \<longrightarrow> fst (First (Username user) (w\<lparr>table := map (\<lambda>u. u\<lparr>DeletedAt := d u\<rparr>) (table w)\<rparr>)) =
          Inr (user\<lparr>DeletedAt := d user\<rparr>)
        \<and> (\<forall>r e. fst (read lib req (w\<lparr>table := map (\<lambda>u. u\<lparr>DeletedAt := d u\<rparr>) (table w)\<rparr>)) =
                 Return r e \<longrightarrow> StatusCode r \<noteq> 404)
        \<and> (\<forall>r e. fst (update lib req (w\<lparr>table := map (\<lambda>u. u\<lparr>DeletedAt := d u\<rparr>) (table w)\<rparr>)) =
                 Return r e \<longrightarrow> StatusCode r \<noteq> 404))
   \<and> fst (read lib req (w\<lparr>table := map (\<lambda>u. u\<lparr>DeletedAt := d u\<rparr>) (table w)\<rparr>)) =
       fst (read lib req w)
   \<and> fst (update lib req (w\<lparr>table := map (\<lambda>u. u\<lparr>DeletedAt := d u\<rparr>) (table w)\<rparr>)) =
       fst (update lib req w)"
proof (intro conjI impI allI)
  let ?g = "\<lambda>u. u\<lparr>DeletedAt := d u\<rparr>"
  let ?w = "w\<lparr>table := map ?g (table w)\<rparr>"
  assume h: "query_error w = None \<and> distinct (map Username (table w)) \<and> user \<in> set (table w)
      \<and> Authorizer (RequestContext req) = Some a
      \<and> map_of (Lambda a) ''username'' = Some (JString (Username user))"
  then have row: "find (\<lambda>u. Username u = Username user) (table w) = Some user"
    using find_unique [of Username "table w" user] by simp
  then have row': "find (\<lambda>u. Username u = Username user) (table ?w) = Some (?g user)"
    by (simp add: find_map_key)
  from h row' show "fst (First (Username user) ?w) = Inr (?g user)"
    by (simp add: First_def)
  from h have claim: "assert_string (Lambda a) ''username'' = Some (Username user)"
    by (simp add: assert_string_def)
  {
    fix r e
    assume "fst (read lib req ?w) = Return r e"
    show "StatusCode r \<noteq> 404"
    proof
      assume "StatusCode r = 404"
      with \<open>fst (read lib req ?w) = Return r e\<close> read_404_lookup_failed [of lib req ?w r e]
      show False using h claim row' by auto
    qed
  }
  {
    fix r e
    assume "fst (update lib req ?w) = Return r e"
    show "StatusCode r \<noteq> 404"
    proof
      assume "StatusCode r = 404"
      with \<open>fst (update lib req ?w) = Return r e\<close> update_404_lookup_failed [of lib req ?w r e]
      show False using h claim row' by auto
    qed
  }
next
  show "fst (read lib req (w\<lparr>table := map (\<lambda>u. u\<lparr>DeletedAt := d u\<rparr>) (table w)\<rparr>)) =
     fst (read lib req w)"
    by (auto simp: read_def step_defs find_map_key split: all_splits)
next
  have same: "\<And>u x. fst (json_Unmarshal lib (Request.Body req) (u\<lparr>DeletedAt := x\<rparr>))
      = fst (json_Unmarshal lib (Request.Body req) u)"
    by (rule Unmarshal_error_same)
  show "fst (update lib req (w\<lparr>table := map (\<lambda>u. u\<lparr>DeletedAt := d u\<rparr>) (table w)\<rparr>)) =
     fst (update lib req w)"
    by (simp add: update_response find_map_key same split: option.splits)
qed

theorem lookup_returns_row_whatever_DeletedAt_witness:
  "fst (First ''alice'' (example_world\<lparr>table := [alice\<lparr>DeletedAt := 5\<rparr>]\<rparr>)) =
     Inr (alice\<lparr>DeletedAt := 5\<rparr>)
   \<and> DeletedAt (alice\<lparr>DeletedAt := 5\<rparr>) \<noteq> 0"
  using lookup_returns_row_whatever_DeletedAt
    [where w = example_world and user = alice
       and req = "request_of_alice ''GET'' ''Bearer token'' []"
       and a = "\<lparr>Lambda = [(''username'', JString ''alice'')]\<rparr>" and d = "\<lambda>u. 5"
       and lib = example_lib]
  by (simp add: request_of_alice_def example_world_def alice_def)

text \<open>
  C4, as the code has it. First, a GET request of \<open>alice\<close> with a token that the identity
  provider refuses, while the table has no row: the status is 500, not 404, for \<open>read\<close>
  asks the provider before the store. Second, an update request of \<open>alice\<close>, whose row is
  in the table, while the query fails for a reason other than a missing row: the status
  is 404, not 500, for any error of the lookup is answered so.
\<close>

theorem not_found_status_counterexample:
  "fst (read example_lib (request_of_alice ''GET'' ''Bearer stale'' [])
          (example_world\<lparr>table := []\<rparr>)) =
     Return \<lparr>StatusCode = 500, Body = ''NotAuthorizedException: Invalid Access Token'',
             Headers = []\<rparr> None
   \<and> fst (update example_lib (request_of_alice ''PUT'' [] bio_patch)
          (example_world\<lparr>query_error := Some ''invalid connection''\<rparr>)) =
     Return \<lparr>StatusCode = 404, Body = ''user not found'', Headers = []\<rparr> None
   \<and> table (example_world\<lparr>query_error := Some ''invalid connection''\<rparr>) = [alice]"
  by (simp add: read_def update_def step_defs request_of_alice_def example_world_def
      assert_string_def index_string_def)

text \<open>
  C4, amended. Take a request of \<open>read\<close> or of \<open>update\<close> that gets as far as the lookup
  of a username (the lookup is among the calls it makes), in a world whose queries do not
  fail. Then it returns a response with a nil error, whose status is 404 exactly when no
  row of the table has that username.
\<close>

theorem not_found_iff_no_row:
  assumes "query_error w = None"
    and "SelectFirst username \<notin> set (calls w)"
  shows "(SelectFirst username \<in> set (calls (snd (read lib req w))) \<longrightarrow>
      (\<exists>r. fst (read lib req w) = Return r None
         \<and> (StatusCode r = 404 \<longleftrightarrow> (\<forall>u \<in> set (table w). Username u \<noteq> username))))
    \<and> (SelectFirst username \<in> set (calls (snd (update lib req w))) \<longrightarrow>
      (\<exists>r. fst (update lib req w) = Return r None
         \<and> (StatusCode r = 404 \<longleftrightarrow> (\<forall>u \<in> set (table w). Username u \<noteq> username))))"
proof (intro conjI impI)
  assume "SelectFirst username \<in> set (calls (snd (read lib req w)))"
  with assms show "\<exists>r. fst (read lib req w) = Return r None
         \<and> (StatusCode r = 404 \<longleftrightarrow> (\<forall>u \<in> set (table w). Username u \<noteq> username))"
    by (auto simp: read_def step_defs find_None_iff find_Some_iff split: all_splits)
next
  assume "SelectFirst username \<in> set (calls (snd (update lib req w)))"
  with assms show "\<exists>r. fst (update lib req w) = Return r None
         \<and> (StatusCode r = 404 \<longleftrightarrow> (\<forall>u \<in> set (table w). Username u \<noteq> username))"
    by (auto simp: update_def step_defs find_None_iff find_Some_iff split: all_splits)
qed

theorem not_found_iff_no_row_witness:
  "fst (read example_lib (request_of_alice ''GET'' ''Bearer token'' [])
          (example_world\<lparr>table := []\<rparr>)) =
     Return \<lparr>StatusCode = 404, Body = ''user not found'', Headers = []\<rparr> None
   \<and> fst (update example_lib (request_of_alice ''PUT'' [] bio_patch)
          (example_world\<lparr>table := []\<rparr>)) =
     Return \<lparr>StatusCode = 404, Body = ''user not found'', Headers = []\<rparr> None"
  using not_found_iff_no_row
    [where w = "example_world\<lparr>table := []\<rparr>" and username = "''alice''" and lib = example_lib
       and req = "request_of_alice ''GET'' ''Bearer token'' []"]
    not_found_iff_no_row
    [where w = "example_world\<lparr>table := []\<rparr>" and username = "''alice''" and lib = example_lib
       and req = "request_of_alice ''PUT'' [] bio_patch"]
  by (simp add: read_def update_def step_defs request_of_alice_def example_world_def
      assert_string_def index_string_def alice_attributes_def)

text \<open>
  C6. First: take an update request with the body \<open>{"bio":"new bio"}\<close> from a caller with a
  username whose row \<open>user\<close> is in the table (the connection, the query and the write at
  hand). Then the response is 200, the record handed to the store is \<open>user\<close> with the bio
  \<open>new bio\<close>, and the row that the lookup finds afterwards is that record with the store's
  stamp: its \<open>ProfilePicture\<close>, like every field but \<open>Bio\<close> and \<open>UpdatedAt\<close>, is the one of
  \<open>user\<close>. Second, for every body and every struct: a field that no key of the body
  answers to has after \<open>json.Unmarshal\<close> the content it had before.
\<close>

theorem update_patches_present_fields:
  "(open_error w = None \<and> Authorizer (RequestContext req) = Some a
      \<and> map_of (Lambda a) ''username'' = Some (JString username)
      \<and> query_error w = None \<and> save_error w = None
      \<and> distinct (map Username (table w)) \<and> user \<in> set (table w)
      \<and> Username user = username
      \<and> Request.Body req = bio_patch
      \<and> json_parse lib bio_patch = Some (JObject [(''bio'', JString ''new bio'')])
    \<longrightarrow> update lib req w =
          (Return \<lparr>StatusCode = 200, Body = ''user updated successfully'', Headers = []\<rparr> None,
           w\<lparr>table := upsert (user\<lparr>Bio := ''new bio'', UpdatedAt := clock w\<rparr>) (table w),
             calls := calls w @
               [OpenDB, SelectFirst username, SaveRow (user\<lparr>Bio := ''new bio''\<rparr>)]\<rparr>)
        \<and> fst (First username (snd (update lib req w))) =
            Inr (user\<lparr>Bio := ''new bio'', UpdatedAt := clock w\<rparr>))
   \<and> (\<forall>f data u.
        (\<forall>kvs. json_parse lib data = Some (JObject kvs) \<longrightarrow>
           (\<forall>k \<in> fst ` set kvs. field_of k \<noteq> Some f))
        \<longrightarrow> field_value f (snd (json_Unmarshal lib data u)) = field_value f u)"
proof (intro conjI impI allI)
  assume h: "open_error w = None \<and> Authorizer (RequestContext req) = Some a
      \<and> map_of (Lambda a) ''username'' = Some (JString username)
      \<and> query_error w = None \<and> save_error w = None
      \<and> distinct (map Username (table w)) \<and> user \<in> set (table w)
      \<and> Username user = username
      \<and> Request.Body req = bio_patch
      \<and> json_parse lib bio_patch = Some (JObject [(''bio'', JString ''new bio'')])"
  then have row: "find (\<lambda>u. Username u = username) (table w) = Some user"
    using find_unique [of Username "table w" user] by auto
  have patch: "json_Unmarshal lib bio_patch user = (None, user\<lparr>Bio := ''new bio''\<rparr>)"
    using h by (simp add: json_Unmarshal_def field_of_bio store_def store_string_def)
  show run: "update lib req w =
          (Return \<lparr>StatusCode = 200, Body = ''user updated successfully'', Headers = []\<rparr> None,
           w\<lparr>table := upsert (user\<lparr>Bio := ''new bio'', UpdatedAt := clock w\<rparr>) (table w),
             calls := calls w @
               [OpenDB, SelectFirst username, SaveRow (user\<lparr>Bio := ''new bio''\<rparr>)]\<rparr>)"
    using h row patch by (simp add: update_def step_defs assert_string_def)
  have "find (\<lambda>r. Username r = Username (user\<lparr>Bio := ''new bio'', UpdatedAt := clock w\<rparr>))
          (upsert (user\<lparr>Bio := ''new bio'', UpdatedAt := clock w\<rparr>) (table w))
        = Some (user\<lparr>Bio := ''new bio'', UpdatedAt := clock w\<rparr>)"
    by (rule find_upsert)
  with h show "fst (First username (snd (update lib req w))) =
            Inr (user\<lparr>Bio := ''new bio'', UpdatedAt := clock w\<rparr>)"
    by (simp add: run First_def)
next
  fix f data u
  assume "\<forall>kvs. json_parse lib data = Some (JObject kvs) \<longrightarrow>
           (\<forall>k \<in> fst ` set kvs. field_of k \<noteq> Some f)"
  then show "field_value f (snd (json_Unmarshal lib data u)) = field_value f u"
    by (rule Unmarshal_frame)
qed

theorem update_patches_present_fields_witness:
  "update example_lib (request_of_alice ''PUT'' [] bio_patch) example_world =
     (Return \<lparr>StatusCode = 200, Body = ''user updated successfully'', Headers = []\<rparr> None,
      example_world
        \<lparr>table := [alice\<lparr>Bio := ''new bio'', UpdatedAt := 9\<rparr>],
         calls := [OpenDB, SelectFirst ''alice'', SaveRow (alice\<lparr>Bio := ''new bio''\<rparr>)]\<rparr>)
   \<and> ProfilePicture (alice\<lparr>Bio := ''new bio'', UpdatedAt := 9\<rparr>) = ProfilePicture alice"
  using update_patches_present_fields
    [where w = example_world and req = "request_of_alice ''PUT'' [] bio_patch"
       and a = "\<lparr>Lambda = [(''username'', JString ''alice'')]\<rparr>" and username = "''alice''"
       and user = alice and lib = example_lib]
  by (simp add: request_of_alice_def example_world_def example_lib_def alice_def)

text \<open>
  C7, as the code has it. The body \<open>not json\<close> is not JSON, but the caller has no row in
  the table: the response is 404 \<open>user not found\<close>, not 400, for the row is looked up
  before the body is read.
\<close>

theorem update_invalid_body_unknown_user:
  "fst (update example_lib (request_of_alice ''PUT'' [] ''not json'')
          (example_world\<lparr>table := []\<rparr>)) =
     Return \<lparr>StatusCode = 404, Body = ''user not found'', Headers = []\<rparr> None
   \<and> json_parse example_lib ''not json'' = None"
  by (simp add: update_def step_defs request_of_alice_def example_world_def example_lib_def
      assert_string_def bio_patch_def username_patch_def)

text \<open>
  C7, amended. Take an update request whose body is not JSON. The request writes nothing:
  the table is as it was and no record is handed to the store. And when the request gets
  as far as reading the body (the connection is made, the caller has a username, the
  query does not fail and finds a row of that username), the response is status 400 with
  the body \<open>invalid request body\<close>.
\<close>

theorem update_invalid_body:
  assumes "json_parse lib (Request.Body req) = None"
  shows "table (snd (update lib req w)) = table w
    \<and> (\<forall>u. SaveRow u \<in> set (calls (snd (update lib req w))) \<longrightarrow> SaveRow u \<in> set (calls w))
    \<and> (open_error w = None \<and> Authorizer (RequestContext req) = Some a
         \<and> map_of (Lambda a) ''username'' = Some (JString username)
         \<and> query_error w = None \<and> (\<exists>u \<in> set (table w). Username u = username)
       \<longrightarrow> fst (update lib req w) =
             Return \<lparr>StatusCode = 400, Body = ''invalid request body'', Headers = []\<rparr> None)"
proof -
  have bad: "\<And>u. json_Unmarshal lib (Request.Body req) u
      = (Some ''invalid character looking for beginning of value'', u)"
    using assms by (simp add: json_Unmarshal_def)
  show ?thesis
    by (auto simp: update_def step_defs assert_string_def bad find_None_iff
        split: option.splits sum.splits prod.splits)
qed

theorem update_invalid_body_witness:
  "update example_lib (request_of_alice ''PUT'' [] ''not json'') example_world =
     (Return \<lparr>StatusCode = 400, Body = ''invalid request body'', Headers = []\<rparr> None,
      example_world\<lparr>calls := [OpenDB, SelectFirst ''alice'']\<rparr>)"
  using update_invalid_body
    [where w = example_world and req = "request_of_alice ''PUT'' [] ''not json''"
       and a = "\<lparr>Lambda = [(''username'', JString ''alice'')]\<rparr>" and username = "''alice''"
       and lib = example_lib]
  by (simp add: update_def step_defs request_of_alice_def example_world_def example_lib_def
      assert_string_def json_Unmarshal_def alice_def bio_patch_def username_patch_def)

end
